theory Spec2Isabelle
  imports Complex_Main
begin

section \<open>Conventions of the embedding\<close>

text \<open>
  The development embeds three parts of the gym API: the churn predictor
  (\<^verbatim>\<open>churn_model.py\<close>), the risk query \<^verbatim>\<open>AlunoRiscoChurn.get\<close>
  (\<^verbatim>\<open>api/main.py\<close>) and the queue consumer (\<^verbatim>\<open>consumer.py\<close>).

  \<^item> A Python \<^verbatim>\<open>float\<close> is modelled by the rational number it stands for and
    arithmetic is exact; the rounding error of binary64 is outside the model. Decimal
    literals such as \<^verbatim>\<open>0.7\<close> are the rationals they are written as.
  \<^item> A \<^verbatim>\<open>datetime\<close> is the number of microseconds since the epoch of its wall
    clock. The column \<^verbatim>\<open>timestamp_checkin\<close> is a \<^verbatim>\<open>DateTime\<close> without time
    zone, so the rows come back naive; the code reads a naive value as UTC
    (\<^verbatim>\<open>replace(tzinfo=timezone.utc)\<close>), which leaves the count of microseconds as it is.
  \<^item> \<^verbatim>\<open>datetime.now(timezone.utc)\<close> is the parameter \<open>now\<close>; the few readings
    of the clock within one request are taken to be the same instant.
  \<^item> A \<^verbatim>\<open>timedelta\<close> is a number of microseconds; its attribute \<^verbatim>\<open>days\<close> is
    the floor of the quotient by one day, which is what \<open>div\<close> on \<open>int\<close> computes.
\<close>

type_synonym datetime = int

definition day_us :: int where
  "day_us = 86400000000"

definition timedelta_days :: "int \<Rightarrow> int" where
  "timedelta_days delta = delta div day_us"

text \<open>
  \<^verbatim>\<open>round(x, n)\<close>: rounding to \<open>n\<close> decimals, a tie going to the even neighbour.
\<close>

definition round_half_even :: "rat \<Rightarrow> int" where
  "round_half_even x =
     (let f = \<lfloor>x\<rfloor>; d = x - of_int f
      in if d < 1 / 2 then f
         else if 1 / 2 < d then f + 1
         else if even f then f else f + 1)"

definition py_round :: "rat \<Rightarrow> nat \<Rightarrow> rat" where
  "py_round x n = of_int (round_half_even (x * 10 ^ n)) / 10 ^ n"

section \<open>The churn predictor (churn\_model.py)\<close>

text \<open>
  The four features, in the order of \<^verbatim>\<open>self.features\<close>. The dictionary
  \<^verbatim>\<open>aluno_metrics\<close> of the risk query has exactly these keys.
\<close>

record features =
  frequencia_semanal :: rat
  dias_desde_ultimo_checkin :: int
  duracao_media_visitas_minutos :: rat
  tipo_plano_encoded :: int

text \<open>A row of the training frame: the features and the label \<^verbatim>\<open>churn\<close>.\<close>

type_synonym dataset = "(features \<times> int) list"

definition mk_row :: "rat \<Rightarrow> int \<Rightarrow> rat \<Rightarrow> int \<Rightarrow> int \<Rightarrow> features \<times> int" where
  "mk_row f d m t c =
     (\<lparr>frequencia_semanal = f, dias_desde_ultimo_checkin = d,
       duracao_media_visitas_minutos = m, tipo_plano_encoded = t\<rparr>, c)"

definition create_dummy_data :: dataset where
  "create_dummy_data =
     [mk_row 5 1 60 1 0, mk_row 4 5 55 2 0, mk_row 1 10 40 1 0,
      mk_row (1 / 2) 20 25 1 1, mk_row 3 3 70 3 0, mk_row 2 7 50 2 0,
      mk_row 0 40 20 1 1, mk_row 6 2 65 3 0, mk_row (3 / 2) 15 35 1 1,
      mk_row (1 / 5) 60 15 1 1, mk_row (9 / 2) 4 75 2 0, mk_row (19 / 5) 6 68 3 0,
      mk_row (4 / 5) 25 28 1 1, mk_row 0 90 10 1 1, mk_row 5 8 80 3 0,
      mk_row (5 / 2) 12 48 2 0, mk_row (6 / 5) 18 33 1 1, mk_row (31 / 10) 5 62 3 0]"

text \<open>
  The library \<^verbatim>\<open>scikit-learn\<close> is not part of the repository. Its two entry points
  are parameters of the model: \<open>fit\<close> stands for
  \<^verbatim>\<open>LogisticRegression(solver='liblinear', random_state=42).fit\<close>, a function of
  the training frame alone since solver and seed are constants of the code, and \<open>proba\<close>
  for \<^verbatim>\<open>predict_proba(...)[:, 1][0]\<close>. The type \<open>'m\<close> is the fitted estimator.

  The predictor has the attribute \<^verbatim>\<open>model\<close> and owns the file at
  \<^verbatim>\<open>model_path\<close>. The file is absent (\<open>None\<close>) or holds a pickled object, which
  is an estimator (\<open>Some (Some m)\<close>) or an object that Python takes for false
  (\<open>Some None\<close>). Failures of the file system and the lines printed by the predictor
  are outside the model.
\<close>

record 'm ChurnPredictor =
  model :: "'m option"
  stored :: "'m option option"

definition save_model :: "'m ChurnPredictor \<Rightarrow> 'm ChurnPredictor" where
  "save_model self =
     (case model self of
        Some m \<Rightarrow> self\<lparr>stored := Some (Some m)\<rparr>
      | None \<Rightarrow> self)"

definition train_model ::
  "(dataset \<Rightarrow> 'm) \<Rightarrow> 'm ChurnPredictor \<Rightarrow> dataset \<Rightarrow> 'm ChurnPredictor" where
  "train_model fit self Xy = save_model (self\<lparr>model := Some (fit Xy)\<rparr>)"

definition load_model :: "(dataset \<Rightarrow> 'm) \<Rightarrow> 'm ChurnPredictor \<Rightarrow> 'm ChurnPredictor" where
  "load_model fit self =
     (case stored self of
        Some obj \<Rightarrow> self\<lparr>model := obj\<rparr>
      | None \<Rightarrow> train_model fit self create_dummy_data)"

definition init_predictor :: "(dataset \<Rightarrow> 'm) \<Rightarrow> 'm option option \<Rightarrow> 'm ChurnPredictor" where
  "init_predictor fit disk = load_model fit \<lparr>model = None, stored = disk\<rparr>"

definition retrain_and_save_model ::
  "(dataset \<Rightarrow> 'm) \<Rightarrow> 'm ChurnPredictor \<Rightarrow> 'm ChurnPredictor" where
  "retrain_and_save_model fit self = train_model fit self create_dummy_data"

definition predict_churn_probability ::
  "(dataset \<Rightarrow> 'm) \<Rightarrow> ('m \<Rightarrow> features \<Rightarrow> rat) \<Rightarrow> 'm ChurnPredictor \<Rightarrow> features
     \<Rightarrow> rat option \<times> 'm ChurnPredictor" where
  "predict_churn_probability fit proba self features_data =
     (let self1 = (if model self = None then load_model fit self else self)
      in case model self1 of
           None \<Rightarrow> (None, self1)
         | Some m \<Rightarrow> (Some (proba m features_data), self1))"

section \<open>The risk query (api/main.py, AlunoRiscoChurn.get)\<close>

record plano_row =
  plano_id :: int
  nome_plano :: string

record aluno_row =
  aluno_id :: int
  aluno_nome :: string
  aluno_plano :: "plano_row option"

record checkin_row =
  checkin_id :: int
  id_aluno :: int
  timestamp_checkin :: datetime
  duracao_minutos :: "int option"

record database =
  alunos :: "aluno_row list"
  checkins :: "checkin_row list"

datatype http_error = NotFound404

text \<open>\<^verbatim>\<open>Aluno.query.get_or_404(id)\<close>.\<close>

definition get_or_404 :: "database \<Rightarrow> int \<Rightarrow> http_error + aluno_row" where
  "get_or_404 db i =
     (case find (\<lambda>a. aluno_id a = i) (alunos db) of
        None \<Rightarrow> Inl NotFound404
      | Some a \<Rightarrow> Inr a)"

text \<open>
  \<^verbatim>\<open>query(Checkin).filter_by(id_aluno=aluno.id).order_by(Checkin.timestamp_checkin.desc()).all()\<close>:
  the student's rows, latest first.
\<close>

definition query_checkins_desc :: "database \<Rightarrow> int \<Rightarrow> checkin_row list" where
  "query_checkins_desc db i =
     rev (sort_key timestamp_checkin (filter (\<lambda>c. id_aluno c = i) (checkins db)))"

definition plano_encoded :: "aluno_row \<Rightarrow> int" where
  "plano_encoded aluno =
     (case aluno_plano aluno of
        None \<Rightarrow> 0
      | Some p \<Rightarrow>
          if nome_plano p = ''Mensal'' then 1
          else if nome_plano p = ''Trimestral'' then 2
          else if nome_plano p = ''Anual'' then 3
          else 0)"

text \<open>Lines 290 to 301: days since the first row of the descending list, or 999.\<close>

definition dias_desde_ultimo :: "datetime \<Rightarrow> checkin_row list \<Rightarrow> int" where
  "dias_desde_ultimo now checkins_do_aluno =
     (case checkins_do_aluno of
        [] \<Rightarrow> 999
      | c # _ \<Rightarrow> timedelta_days (now - timestamp_checkin c))"

text \<open>Lines 303 to 309: the sum skips the rows without a duration, the count does not.\<close>

definition total_duracao :: "checkin_row list \<Rightarrow> int" where
  "total_duracao checkins_do_aluno =
     sum_list (map the (filter (\<lambda>d. d \<noteq> None) (map duracao_minutos checkins_do_aluno)))"

definition duracao_media :: "checkin_row list \<Rightarrow> rat" where
  "duracao_media checkins_do_aluno =
     (let total_checkins = length checkins_do_aluno
      in if 0 < total_checkins
         then (if 0 < total_duracao checkins_do_aluno
               then of_int (total_duracao checkins_do_aluno) / of_nat total_checkins
               else 0)
         else 0)"

text \<open>
  Lines 311 to 330: the estimate over the whole history, then the 30 day window. The
  first check-in is the last row of the descending list. A \<^verbatim>\<open>datetime\<close> is never
  false in Python, so the test of line 315 is no branch of the model.
\<close>

definition checkins_ultimos_30_dias :: "datetime \<Rightarrow> checkin_row list \<Rightarrow> checkin_row list" where
  "checkins_ultimos_30_dias now checkins_do_aluno =
     filter (\<lambda>c. now - 30 * day_us \<le> timestamp_checkin c) checkins_do_aluno"

definition frequencia :: "datetime \<Rightarrow> checkin_row list \<Rightarrow> rat" where
  "frequencia now checkins_do_aluno =
     (if checkins_do_aluno \<noteq> []
      then
        (let total_dias_ativo = timedelta_days (now - timestamp_checkin (last checkins_do_aluno));
             base = (if 0 < total_dias_ativo
                     then (of_nat (length checkins_do_aluno) / of_int total_dias_ativo) * 7
                     else 0);
             recentes = checkins_ultimos_30_dias now checkins_do_aluno
         in if 0 < length recentes then of_nat (length recentes) / (30 / 7) else base)
      else 0)"

definition aluno_metrics :: "datetime \<Rightarrow> aluno_row \<Rightarrow> checkin_row list \<Rightarrow> features" where
  "aluno_metrics now aluno checkins_do_aluno =
     \<lparr>frequencia_semanal = frequencia now checkins_do_aluno,
      dias_desde_ultimo_checkin = dias_desde_ultimo now checkins_do_aluno,
      duracao_media_visitas_minutos = py_round (duracao_media checkins_do_aluno) 1,
      tipo_plano_encoded = plano_encoded aluno\<rparr>"

text \<open>
  The classification strings and the reason strings. A reason is the template of its
  f-string together with the number as the template prints it (two decimals for a
  probability, one for a duration or a frequency, the integer for the days):
  \<^item> \<open>ProbMuitoAlta\<close>: \<^verbatim>\<open>Probabilidade de Churn muito alta (p).\<close>
  \<^item> \<open>ProbAlta\<close>: \<^verbatim>\<open>Probabilidade de Churn alta (p).\<close>
  \<^item> \<open>ProbMedia\<close>: \<^verbatim>\<open>Probabilidade de Churn media (p).\<close>
  \<^item> \<open>ProbBaixa\<close>: \<^verbatim>\<open>Probabilidade de Churn baixa (p).\<close>
  \<^item> \<open>UltimoCheckinHa\<close>: \<^verbatim>\<open>Ultimo check-in ha N dias.\<close>
  \<^item> \<open>DuracaoMediaBaixa\<close>: \<^verbatim>\<open>Duracao media de visitas baixa (d min).\<close>
  \<^item> \<open>FrequenciaAbaixoDe1\<close>: \<^verbatim>\<open>Frequencia semanal abaixo de 1 (f).\<close>
  \<^item> \<open>ModeloIndisponivel\<close>: \<^verbatim>\<open>Nao foi possivel gerar previsao de churn (modelo indisponivel ou erro).\<close>
  \<^item> \<open>SemCheckins\<close>: \<^verbatim>\<open>Sem check-ins registrados para analise de churn.\<close>
\<close>

datatype classificacao = Indeterminado | MuitoAlto | Alto | Medio | Baixo | ErroNaPrevisao

datatype motivo =
    ProbMuitoAlta rat
  | ProbAlta rat
  | ProbMedia rat
  | ProbBaixa rat
  | UltimoCheckinHa int
  | DuracaoMediaBaixa rat
  | FrequenciaAbaixoDe1 rat
  | ModeloIndisponivel
  | SemCheckins

text \<open>Lines 345 to 361: the tier of an available probability and its reason.\<close>

definition classifica_prob :: "rat \<Rightarrow> classificacao \<times> motivo list" where
  "classifica_prob churn_prob =
     (if 7 / 10 \<le> churn_prob then (MuitoAlto, [ProbMuitoAlta (py_round churn_prob 2)])
      else if 5 / 10 \<le> churn_prob then (Alto, [ProbAlta (py_round churn_prob 2)])
      else if 3 / 10 \<le> churn_prob then (Medio, [ProbMedia (py_round churn_prob 2)])
      else (Baixo, [ProbBaixa (py_round churn_prob 2)]))"

text \<open>
  Lines 363 to 371: the three contextual reasons. \<open>dias\<close>, \<open>duracao\<close> and
  \<open>freq\<close> are the local variables of the request, not the entries of
  \<^verbatim>\<open>aluno_metrics\<close>: the duration compared with 30 is the one before rounding.
\<close>

definition motivos_contexto ::
  "classificacao \<Rightarrow> int \<Rightarrow> rat \<Rightarrow> rat \<Rightarrow> nat \<Rightarrow> motivo list" where
  "motivos_contexto risco dias duracao freq total_checkins =
     (if 15 < dias \<and> risco \<noteq> Baixo then [UltimoCheckinHa dias] else []) @
     (if duracao < 30 \<and> 5 < total_checkins \<and> risco \<noteq> Baixo
      then [DuracaoMediaBaixa (py_round duracao 1)] else []) @
     (if freq < 1 \<and> 5 < total_checkins \<and> risco \<noteq> Baixo
      then [FrequenciaAbaixoDe1 (py_round freq 1)] else [])"

text \<open>Lines 342 to 376.\<close>

definition classifica ::
  "rat option \<Rightarrow> int \<Rightarrow> rat \<Rightarrow> rat \<Rightarrow> nat \<Rightarrow> classificacao \<times> motivo list" where
  "classifica churn_prob dias duracao freq total_checkins =
     (case churn_prob of
        Some p \<Rightarrow>
          (let (risco, motivos_risco) = classifica_prob p
           in (risco, motivos_risco @ motivos_contexto risco dias duracao freq total_checkins))
      | None \<Rightarrow> (ErroNaPrevisao, [ModeloIndisponivel]))"

text \<open>A field of the answer that is a number or the string \<^verbatim>\<open>N/A\<close>.\<close>

datatype 'a or_na = Value 'a | NA

record metricas_calculadas =
  m_frequencia_semanal :: rat
  m_dias_desde_ultimo_checkin :: "int or_na"
  m_duracao_media_visitas_minutos :: rat
  m_tipo_plano_encoded :: int
  m_total_checkins_registrados :: nat

record risco_churn_response =
  r_aluno_id :: int
  r_nome_aluno :: string
  risco_churn_classificacao :: classificacao
  probabilidade_churn :: "rat or_na"
  motivos :: "motivo list"
  metricas :: metricas_calculadas

text \<open>
  Lines 378 to 399: the override for an empty history and the answer.
  \<^verbatim>\<open>list(set(motivos_risco))\<close> keeps one copy of each reason in an order Python does
  not fix; \<open>remdups\<close> is one such list.
\<close>

definition monta_resposta ::
  "datetime \<Rightarrow> aluno_row \<Rightarrow> checkin_row list \<Rightarrow> rat option \<Rightarrow> risco_churn_response" where
  "monta_resposta now aluno checkins_do_aluno churn_prob =
     (let dias = dias_desde_ultimo now checkins_do_aluno;
          duracao = duracao_media checkins_do_aluno;
          freq = frequencia now checkins_do_aluno;
          total_checkins = length checkins_do_aluno;
          (risco, motivos_risco) = classifica churn_prob dias duracao freq total_checkins;
          vazio = (checkins_do_aluno = [])
      in \<lparr>r_aluno_id = aluno_id aluno,
          r_nome_aluno = aluno_nome aluno,
          risco_churn_classificacao = (if vazio then Indeterminado else risco),
          probabilidade_churn =
            (case churn_prob of Some p \<Rightarrow> Value (py_round p 2) | None \<Rightarrow> NA),
          motivos = remdups (if vazio then [SemCheckins] else motivos_risco),
          metricas =
            \<lparr>m_frequencia_semanal = py_round (if vazio then 0 else freq) 2,
             m_dias_desde_ultimo_checkin = (if vazio then NA else Value dias),
             m_duracao_media_visitas_minutos = py_round (if vazio then 0 else duracao) 1,
             m_tipo_plano_encoded = plano_encoded aluno,
             m_total_checkins_registrados = total_checkins\<rparr>\<rparr>)"

text \<open>
  The request: the student or 404, the rows, the features, the prediction (which may
  load or train the model of the global predictor), the answer. The answer is the
  dictionary that the method returns; what the decorator \<^verbatim>\<open>marshal_with\<close> of the
  library makes of it afterwards is outside the model.
\<close>

definition get ::
  "(dataset \<Rightarrow> 'm) \<Rightarrow> ('m \<Rightarrow> features \<Rightarrow> rat) \<Rightarrow> datetime \<Rightarrow> database \<Rightarrow> 'm ChurnPredictor \<Rightarrow> int
     \<Rightarrow> http_error + (risco_churn_response \<times> 'm ChurnPredictor)" where
  "get fit proba now db churn_predictor i =
     (case get_or_404 db i of
        Inl e \<Rightarrow> Inl e
      | Inr aluno \<Rightarrow>
          (let checkins_do_aluno = query_checkins_desc db i;
               (churn_prob, predictor') =
                 predict_churn_probability fit proba churn_predictor
                   (aluno_metrics now aluno checkins_do_aluno)
           in Inr (monta_resposta now aluno checkins_do_aluno churn_prob, predictor')))"

section \<open>The queue consumer (consumer.py)\<close>

text \<open>
  What \<^verbatim>\<open>json.loads\<close> returns: \<^verbatim>\<open>None\<close>, a boolean, a number, a string, a list
  or a dictionary. A dictionary is the list of its items, read with \<open>map_of\<close>.
\<close>

datatype json =
    JNull
  | JBool bool
  | JInt int
  | JFloat rat
  | JStr string
  | JArr "json list"
  | JObj "(string \<times> json) list"

text \<open>The exceptions that the body of \<^verbatim>\<open>process_checkin_message\<close> can meet.\<close>

datatype exn = JSONDecodeError | AttributeError | TypeError | ValueError | DatabaseError

text \<open>\<^verbatim>\<open>d.get(key)\<close>, which is \<^verbatim>\<open>None\<close> for a missing key, and \<^verbatim>\<open>d.get(key, default)\<close>.\<close>

definition dict_get :: "(string \<times> json) list \<Rightarrow> string \<Rightarrow> json" where
  "dict_get d k = (case map_of d k of None \<Rightarrow> JNull | Some v \<Rightarrow> v)"

definition dict_get_default :: "(string \<times> json) list \<Rightarrow> string \<Rightarrow> json \<Rightarrow> json" where
  "dict_get_default d k dflt = (case map_of d k of None \<Rightarrow> dflt | Some v \<Rightarrow> v)"

text \<open>
  \<^verbatim>\<open>for single_id in checkin_ids\<close>: a list gives its elements, a string its characters,
  a dictionary its keys; any other value is not iterable.
\<close>

definition iterate :: "json \<Rightarrow> exn + json list" where
  "iterate v =
     (case v of
        JArr xs \<Rightarrow> Inr xs
      | JStr s \<Rightarrow> Inr (map (\<lambda>c. JStr [c]) s)
      | JObj d \<Rightarrow> Inr (map (\<lambda>kv. JStr (fst kv)) d)
      | _ \<Rightarrow> Inl TypeError)"

text \<open>
  The lines the function prints, one constructor for each \<^verbatim>\<open>print\<close> with the values
  it interpolates; a date is the number of its day since the epoch.
\<close>

datatype log_line =
    MensagemRecebida json json
  | ProcessandoCheckinIndividual json json
  | CheckinIndividualProcessado json
  | ProcessandoCheckinsEmMassa json
  | SubProcess json
  | TodosProcessados nat
  | GerandoRelatorio int
  | RelatorioDeFrequencia int
  | TotalDeCheckinsNoDia nat
  | TotalDeAlunosUnicos nat
  | RelatorioGerado int
  | AcionandoRetreinamento
  | RetreinamentoFinalizado
  | WarningTipoDesconhecido json json
  | MensagemConfirmada nat
  | ErrorFalhaJSON string
  | ErrorAoProcessar exn string

text \<open>
  What the function does to the world, in order: a printed line, \<^verbatim>\<open>time.sleep\<close>,
  the acknowledgement calls on the channel, and the calls on the database session.
  The calls on the channel, the prints and the closing of the session are taken to
  succeed.
\<close>

datatype event =
    Print log_line
  | Sleep rat
  | BasicAck nat
  | BasicNack nat
  | SessionQuery int int
  | SessionRollback
  | SessionClose

record 'm consumer_state =
  trace :: "event list"
  churn_predictor_consumer :: "'m ChurnPredictor"

text \<open>
  What the function reads from outside the repository: \<^verbatim>\<open>json.loads\<close>,
  \<^verbatim>\<open>datetime.fromisoformat\<close> (\<open>None\<close> for \<^verbatim>\<open>ValueError\<close>), the clock, the
  table of check-ins as the session returns it (or the failure of the database), and
  the fitting function of the library.
\<close>

record 'm environment =
  json_loads :: "string \<Rightarrow> exn + json"
  fromisoformat :: "string \<Rightarrow> datetime option"
  utcnow :: datetime
  checkin_table :: "exn + checkin_row list"
  sk_fit :: "dataset \<Rightarrow> 'm"

definition emit :: "event list \<Rightarrow> 'm consumer_state \<Rightarrow> 'm consumer_state" where
  "emit evs st = st\<lparr>trace := trace st @ evs\<rparr>"

text \<open>
  A handler returns \<open>None\<close> when it runs to its end and \<open>Some e\<close> when it raises
  \<open>e\<close>; the state holds what it did until then.
\<close>

definition handle_new_checkin ::
  "(string \<times> json) list \<Rightarrow> 'm consumer_state \<Rightarrow> exn option \<times> 'm consumer_state" where
  "handle_new_checkin message_data st =
     (let checkin_id = dict_get message_data ''checkin_id'';
          id_aluno_msg = dict_get message_data ''id_aluno''
      in (None, emit [Print (ProcessandoCheckinIndividual checkin_id id_aluno_msg),
                      Sleep 1,
                      Print (CheckinIndividualProcessado checkin_id)] st))"

definition handle_bulk_checkin ::
  "(string \<times> json) list \<Rightarrow> 'm consumer_state \<Rightarrow> exn option \<times> 'm consumer_state" where
  "handle_bulk_checkin message_data st =
     (let checkin_ids = dict_get_default message_data ''checkin_ids'' (JArr []);
          st1 = emit [Print (ProcessandoCheckinsEmMassa checkin_ids)] st
      in case iterate checkin_ids of
           Inl e \<Rightarrow> (Some e, st1)
         | Inr ids \<Rightarrow>
             (None, emit (concat (map (\<lambda>single_id. [Print (SubProcess single_id), Sleep (1 / 2)]) ids)
                          @ [Print (TodosProcessados (length ids))]) st1))"

text \<open>
  The date of the report: the field \<^verbatim>\<open>report_date\<close> parsed by
  \<^verbatim>\<open>datetime.fromisoformat(...).date()\<close>, or today's date when the field is absent
  (the default is today's date printed and parsed again).
\<close>

definition report_date_of :: "'m environment \<Rightarrow> (string \<times> json) list \<Rightarrow> exn + int" where
  "report_date_of env message_data =
     (case map_of message_data ''report_date'' of
        None \<Rightarrow> Inr (utcnow env div day_us)
      | Some (JStr s) \<Rightarrow>
          (case fromisoformat env s of
             None \<Rightarrow> Inl ValueError
           | Some t \<Rightarrow> Inr (t div day_us))
      | Some _ \<Rightarrow> Inl TypeError)"

definition handle_daily_report ::
  "'m environment \<Rightarrow> (string \<times> json) list \<Rightarrow> 'm consumer_state
     \<Rightarrow> exn option \<times> 'm consumer_state" where
  "handle_daily_report env message_data st =
     (case report_date_of env message_data of
        Inl e \<Rightarrow> (Some e, st)
      | Inr report_date \<Rightarrow>
          (let st1 = emit [Print (GerandoRelatorio report_date)] st;
               start_of_day = report_date * day_us;
               end_of_day = start_of_day + day_us;
               st2 = emit [SessionQuery start_of_day end_of_day] st1
           in case checkin_table env of
                Inl e \<Rightarrow> (Some e, st2)
              | Inr rows \<Rightarrow>
                  (let daily_checkins =
                         filter (\<lambda>c. start_of_day \<le> timestamp_checkin c \<and>
                                      timestamp_checkin c < end_of_day) rows;
                       total_daily_checkins = length daily_checkins;
                       total_unique_alunos = length (remdups (map id_aluno daily_checkins))
                   in (None, emit [Print (RelatorioDeFrequencia report_date),
                                   Print (TotalDeCheckinsNoDia total_daily_checkins),
                                   Print (TotalDeAlunosUnicos total_unique_alunos),
                                   Sleep 3,
                                   Print (RelatorioGerado report_date)] st2))))"

definition handle_retrain ::
  "'m environment \<Rightarrow> 'm consumer_state \<Rightarrow> exn option \<times> 'm consumer_state" where
  "handle_retrain env st =
     (let st1 = emit [Print AcionandoRetreinamento] st;
          st2 = st1\<lparr>churn_predictor_consumer :=
                      retrain_and_save_model (sk_fit env) (churn_predictor_consumer st1)\<rparr>
      in (None, emit [Print RetreinamentoFinalizado] st2))"

definition handle_unknown ::
  "json \<Rightarrow> json \<Rightarrow> 'm consumer_state \<Rightarrow> exn option \<times> 'm consumer_state" where
  "handle_unknown message_type message_data st =
     (None, emit [Print (WarningTipoDesconhecido message_type message_data)] st)"

text \<open>
  Lines 38 to 106, the body of the \<^verbatim>\<open>try\<close> before the acknowledgement: the parse,
  the read of the type (\<^verbatim>\<open>AttributeError\<close> when the payload is not a dictionary)
  and the branch of the type.
\<close>

definition handle_message ::
  "'m environment \<Rightarrow> string \<Rightarrow> 'm consumer_state \<Rightarrow> exn option \<times> 'm consumer_state" where
  "handle_message env body st =
     (case json_loads env body of
        Inl e \<Rightarrow> (Some e, st)
      | Inr (JObj message_data) \<Rightarrow>
          (let message_type = dict_get message_data ''type'';
               st1 = emit [Print (MensagemRecebida message_type (JObj message_data))] st
           in if message_type = JStr ''new_checkin_event''
              then handle_new_checkin message_data st1
              else if message_type = JStr ''bulk_checkin_event''
              then handle_bulk_checkin message_data st1
              else if message_type = JStr ''generate_daily_report_event''
              then handle_daily_report env message_data st1
              else if message_type = JStr ''retrain_model_event''
              then handle_retrain env st1
              else handle_unknown message_type (JObj message_data) st1)
      | Inr _ \<Rightarrow> (Some AttributeError, st))"

text \<open>
  \<^verbatim>\<open>process_checkin_message(ch, method, properties, body)\<close> with
  \<^verbatim>\<open>method.delivery_tag\<close> as \<open>delivery_tag\<close>: the acknowledgement at the end of the
  \<^verbatim>\<open>try\<close>, the two \<^verbatim>\<open>except\<close> clauses and the \<^verbatim>\<open>finally\<close>.
\<close>

definition process_checkin_message ::
  "'m environment \<Rightarrow> nat \<Rightarrow> string \<Rightarrow> 'm consumer_state \<Rightarrow> 'm consumer_state" where
  "process_checkin_message env delivery_tag body st =
     (let (raised, st1) = handle_message env body st;
          st2 = (case raised of
                   None \<Rightarrow>
                     emit [BasicAck delivery_tag, Print (MensagemConfirmada delivery_tag)] st1
                 | Some JSONDecodeError \<Rightarrow>
                     emit [Print (ErrorFalhaJSON body), SessionRollback,
                           BasicNack delivery_tag] st1
                 | Some e \<Rightarrow>
                     emit [Print (ErrorAoProcessar e body), SessionRollback,
                           BasicNack delivery_tag] st1)
      in emit [SessionClose] st2)"

text \<open>The events that the processing of one message adds to the trace.\<close>

definition delivered_events ::
  "'m environment \<Rightarrow> nat \<Rightarrow> string \<Rightarrow> 'm consumer_state \<Rightarrow> event list" where
  "delivered_events env delivery_tag body st =
     drop (length (trace st)) (trace (process_checkin_message env delivery_tag body st))"

section \<open>Vocabulary of the statements\<close>

text \<open>The three contextual reasons of lines 363 to 371.\<close>

fun contextual :: "motivo \<Rightarrow> bool" where
  "contextual (UltimoCheckinHa n) = True"
| "contextual (DuracaoMediaBaixa d) = True"
| "contextual (FrequenciaAbaixoDe1 f) = True"
| "contextual m = False"

fun is_ack_or_nack :: "event \<Rightarrow> bool" where
  "is_ack_or_nack (BasicAck t) = True"
| "is_ack_or_nack (BasicNack t) = True"
| "is_ack_or_nack e = False"

text \<open>
  The second state extends the trace of the first by events none of which is an
  acknowledgement: what every handler does.
\<close>

definition appends_quietly :: "'m consumer_state \<Rightarrow> 'm consumer_state \<Rightarrow> bool" where
  "appends_quietly st st' \<longleftrightarrow>
     (\<exists>evs. trace st' = trace st @ evs \<and> (\<forall>e\<in>set evs. \<not> is_ack_or_nack e))"

section \<open>Example data\<close>

text \<open>
  A fitted estimator that answers one fixed probability, a predictor that holds it, and
  a predictor whose file holds an object that Python takes for false.
\<close>

definition fit_unit :: "dataset \<Rightarrow> unit" where
  "fit_unit Xy = ()"

definition proba_const :: "rat \<Rightarrow> unit \<Rightarrow> features \<Rightarrow> rat" where
  "proba_const p m features_data = p"

definition predictor_loaded :: "unit ChurnPredictor" where
  "predictor_loaded = \<lparr>model = Some (), stored = Some (Some ())\<rparr>"


definition aluno_ana :: aluno_row where
  "aluno_ana = \<lparr>aluno_id = 1, aluno_nome = ''Ana'',
                aluno_plano = Some \<lparr>plano_id = 1, nome_plano = ''Mensal''\<rparr>\<rparr>"

text \<open>A check-in of student 1 at midnight of the given day; the clock, one hour into day 1000.\<close>

definition mk_checkin :: "int \<Rightarrow> int \<Rightarrow> int option \<Rightarrow> checkin_row" where
  "mk_checkin k dia dur =
     \<lparr>checkin_id = k, id_aluno = 1, timestamp_checkin = dia * day_us, duracao_minutos = dur\<rparr>"

definition now_ex :: datetime where
  "now_ex = 1000 * day_us + 3600000000"

definition db_vazio :: database where
  "db_vazio = \<lparr>alunos = [aluno_ana], checkins = []\<rparr>"

text \<open>Check-ins 1, 5 and 40 days old, of 60 and 55 minutes and of no recorded duration.\<close>

definition db_a :: database where
  "db_a = \<lparr>alunos = [aluno_ana],
           checkins = [mk_checkin 1 960 None, mk_checkin 2 995 (Some 55),
                       mk_checkin 3 999 (Some 60)]\<rparr>"

text \<open>Six short check-ins, all more than 190 days old.\<close>

definition db_b :: database where
  "db_b = \<lparr>alunos = [aluno_ana],
           checkins = map (\<lambda>k. mk_checkin k (800 + k) (Some 20)) [1, 2, 3, 4, 5, 6]\<rparr>"

text \<open>One check-in 999 days old, and one check-in dated the day after the clock.\<close>

definition db_999 :: database where
  "db_999 = \<lparr>alunos = [aluno_ana], checkins = [mk_checkin 1 1 (Some 45)]\<rparr>"

definition db_futuro :: database where
  "db_futuro = \<lparr>alunos = [aluno_ana], checkins = [mk_checkin 1 1001 (Some 45)]\<rparr>"


text \<open>Four payloads and a parser that knows them.\<close>

definition quoted :: "string \<Rightarrow> string" where
  "quoted s = [CHR 0x22] @ s @ [CHR 0x22]"

definition body_foo :: string where
  "body_foo = ''{'' @ quoted ''type'' @ '': '' @ quoted ''foo'' @ ''}''"

definition body_new :: string where
  "body_new = ''{'' @ quoted ''type'' @ '': '' @ quoted ''new_checkin_event'' @ '', '' @
              quoted ''checkin_id'' @ '': 7, '' @ quoted ''id_aluno'' @ '': 1}''"

definition body_bulk_bad :: string where
  "body_bulk_bad = ''{'' @ quoted ''type'' @ '': '' @ quoted ''bulk_checkin_event'' @ '', '' @
                   quoted ''checkin_ids'' @ '': 5}''"

definition body_malformed :: string where
  "body_malformed = ''{type: foo''"

definition loads_ex :: "string \<Rightarrow> exn + json" where
  "loads_ex body =
     (if body = body_foo then Inr (JObj [(''type'', JStr ''foo'')])
      else if body = body_new
      then Inr (JObj [(''type'', JStr ''new_checkin_event''), (''checkin_id'', JInt 7),
                      (''id_aluno'', JInt 1)])
      else if body = body_bulk_bad
      then Inr (JObj [(''type'', JStr ''bulk_checkin_event''), (''checkin_ids'', JInt 5)])
      else Inl JSONDecodeError)"

definition fromisoformat_ex :: "string \<Rightarrow> datetime option" where
  "fromisoformat_ex s = (if s = ''1972-09-27'' then Some (1000 * day_us) else None)"

definition env_ex :: "unit environment" where
  "env_ex = \<lparr>json_loads = loads_ex, fromisoformat = fromisoformat_ex, utcnow = now_ex,
             checkin_table = Inr (checkins db_a), sk_fit = fit_unit\<rparr>"

definition st_ex :: "unit consumer_state" where
  "st_ex = \<lparr>trace = [], churn_predictor_consumer = predictor_loaded\<rparr>"

section \<open>The rows of a student, latest first\<close>

lemma sorted_map_last_Max:
  "sorted (map f ys) \<Longrightarrow> ys \<noteq> [] \<Longrightarrow> f (last ys) = Max (f ` set ys)"
proof (induction ys)
  case Nil
  then show ?case by simp
next
  case (Cons y ys)
  show ?case
  proof (cases "ys = []")
    case True
    then show ?thesis by simp
  next
    case False
    with Cons have ih: "f (last ys) = Max (f ` set ys)" by simp
    from Cons.prems have "\<forall>z\<in>set ys. f y \<le> f z" by simp
    with False have "f y \<le> f (last ys)" by simp
    with False ih show ?thesis by (simp add: max_def)
  qed
qed

lemma sorted_map_hd_Min:
  assumes "sorted (map f ys)" and "ys \<noteq> []"
  shows "f (hd ys) = Min (f ` set ys)"
proof -
  from assms(2) obtain y zs where ys: "ys = y # zs"
    by (cases ys) auto
  with assms(1) have "\<forall>z\<in>set zs. f y \<le> f z" by simp
  then have "Min (f ` set (y # zs)) = f y"
    by (intro Min_eqI) auto
  with ys show ?thesis by simp
qed

lemma hd_query_Max:
  assumes "query_checkins_desc db i \<noteq> []"
  shows "timestamp_checkin (hd (query_checkins_desc db i)) =
         Max (timestamp_checkin ` set (query_checkins_desc db i))"
proof -
  let ?ys = "sort_key timestamp_checkin (filter (\<lambda>c. id_aluno c = i) (checkins db))"
  have ne: "?ys \<noteq> []" using assms by (simp add: query_checkins_desc_def)
  have "timestamp_checkin (last ?ys) = Max (timestamp_checkin ` set ?ys)"
    by (rule sorted_map_last_Max) (simp_all add: ne)
  moreover have "hd (query_checkins_desc db i) = last ?ys"
    using ne by (simp add: query_checkins_desc_def hd_rev)
  moreover have "set (query_checkins_desc db i) = set ?ys"
    by (simp add: query_checkins_desc_def)
  ultimately show ?thesis by simp
qed

lemma last_query_Min:
  assumes "query_checkins_desc db i \<noteq> []"
  shows "timestamp_checkin (last (query_checkins_desc db i)) =
         Min (timestamp_checkin ` set (query_checkins_desc db i))"
proof -
  let ?ys = "sort_key timestamp_checkin (filter (\<lambda>c. id_aluno c = i) (checkins db))"
  have ne: "?ys \<noteq> []" using assms by (simp add: query_checkins_desc_def)
  have "timestamp_checkin (hd ?ys) = Min (timestamp_checkin ` set ?ys)"
    by (rule sorted_map_hd_Min) (simp_all add: ne)
  moreover have "last (query_checkins_desc db i) = hd ?ys"
    using ne by (simp add: query_checkins_desc_def last_rev)
  moreover have "set (query_checkins_desc db i) = set ?ys"
    by (simp add: query_checkins_desc_def)
  ultimately show ?thesis by simp
qed

section \<open>The request as a whole\<close>

text \<open>For a student in the database the request answers, and the answer is this one.\<close>

lemma get_Inr:
  "get_or_404 db i = Inr aluno \<Longrightarrow>
   get fit proba now db pred i =
     Inr (monta_resposta now aluno (query_checkins_desc db i)
            (fst (predict_churn_probability fit proba pred
                    (aluno_metrics now aluno (query_checkins_desc db i)))),
          snd (predict_churn_probability fit proba pred
                 (aluno_metrics now aluno (query_checkins_desc db i))))"
  by (simp add: get_def Let_def split: prod.splits)


lemma py_round_0 [simp]: "py_round 0 n = 0"
  by (simp add: py_round_def round_half_even_def)

subsection \<open>Evaluations on the example data\<close>


lemma g_a: "get_or_404 db_a 1 = Inr aluno_ana"
  by (simp add: get_or_404_def db_a_def aluno_ana_def)

lemma g_b: "get_or_404 db_b 1 = Inr aluno_ana"
  by (simp add: get_or_404_def db_b_def aluno_ana_def)

lemma q_vazio: "query_checkins_desc db_vazio 1 = []"
  by (simp add: query_checkins_desc_def db_vazio_def)

lemma q_a:
  "query_checkins_desc db_a 1 =
     [mk_checkin 3 999 (Some 60), mk_checkin 2 995 (Some 55), mk_checkin 1 960 None]"
  by (simp add: query_checkins_desc_def db_a_def mk_checkin_def day_us_def)

lemma q_b:
  "query_checkins_desc db_b 1 =
     map (\<lambda>k. mk_checkin k (800 + k) (Some 20)) [6, 5, 4, 3, 2, 1]"
  by (simp add: query_checkins_desc_def db_b_def mk_checkin_def day_us_def)


lemma q_999: "query_checkins_desc db_999 1 = [mk_checkin 1 1 (Some 45)]"
  by (simp add: query_checkins_desc_def db_999_def mk_checkin_def)

lemma q_futuro: "query_checkins_desc db_futuro 1 = [mk_checkin 1 1001 (Some 45)]"
  by (simp add: query_checkins_desc_def db_futuro_def mk_checkin_def)

lemma ne_a: "query_checkins_desc db_a 1 \<noteq> []"
  by (simp add: q_a)

lemma ne_b: "query_checkins_desc db_b 1 \<noteq> []"
  by (simp add: q_b)


lemma predict_loaded:
  "predict_churn_probability fit_unit (proba_const p) predictor_loaded f =
     (Some p, predictor_loaded)"
  by (simp add: predict_churn_probability_def predictor_loaded_def proba_const_def)



section \<open>An empty history\<close>




section \<open>The tiers of the probability\<close>

lemma fst_classifica_Some:
  "fst (classifica (Some p) dias duracao freq n) = fst (classifica_prob p)"
  by (simp add: classifica_def split: prod.splits)

lemma risco_nonempty:
  "cs \<noteq> [] \<Longrightarrow>
   risco_churn_classificacao (monta_resposta now aluno cs churn_prob) =
   fst (classifica churn_prob (dias_desde_ultimo now cs) (duracao_media cs)
          (frequencia now cs) (length cs))"
  by (simp add: monta_resposta_def Let_def split: prod.splits)

lemma fst_classifica_prob:
  "fst (classifica_prob p) =
     (if 7 / 10 \<le> p then MuitoAlto else if 1 / 2 \<le> p then Alto
      else if 3 / 10 \<le> p then Medio else Baixo)"
  by (simp add: classifica_prob_def)

text \<open>
  Claim C2. When the history is not empty and the predictor gives the probability
  \<open>p\<close>, the tier of the answer is Very High from 0.70 on, High from 0.50 to below
  0.70, Medium from 0.30 to below 0.50 and Low below 0.30, each bin closed below and the
  most severe tested first.
\<close>

theorem C2_tiers:
  assumes "get_or_404 db i = Inr aluno"
    and "query_checkins_desc db i \<noteq> []"
    and "fst (predict_churn_probability fit proba churn_predictor
               (aluno_metrics now aluno (query_checkins_desc db i))) = Some p"
  shows "\<exists>resp predictor'.
           get fit proba now db churn_predictor i = Inr (resp, predictor') \<and>
           risco_churn_classificacao resp =
             (if 7 / 10 \<le> p then MuitoAlto
              else if 5 / 10 \<le> p then Alto
              else if 3 / 10 \<le> p then Medio
              else Baixo)"
  using assms by (simp add: get_Inr risco_nonempty fst_classifica_Some fst_classifica_prob)

text \<open>The six probabilities at the cutoffs: 0.70, 0.6999, 0.50, 0.4999, 0.30 and 0.2999.\<close>

theorem C2_tiers_witness:
  "get_or_404 db_a 1 = Inr aluno_ana \<and> query_checkins_desc db_a 1 \<noteq> [] \<and>
   (\<exists>resp predictor'.
      get fit_unit (proba_const (7 / 10)) now_ex db_a predictor_loaded 1 =
        Inr (resp, predictor') \<and>
      risco_churn_classificacao resp = MuitoAlto) \<and>
   (\<exists>resp predictor'.
      get fit_unit (proba_const (6999 / 10000)) now_ex db_a predictor_loaded 1 =
        Inr (resp, predictor') \<and>
      risco_churn_classificacao resp = Alto) \<and>
   (\<exists>resp predictor'.
      get fit_unit (proba_const (5 / 10)) now_ex db_a predictor_loaded 1 =
        Inr (resp, predictor') \<and>
      risco_churn_classificacao resp = Alto) \<and>
   (\<exists>resp predictor'.
      get fit_unit (proba_const (4999 / 10000)) now_ex db_a predictor_loaded 1 =
        Inr (resp, predictor') \<and>
      risco_churn_classificacao resp = Medio) \<and>
   (\<exists>resp predictor'.
      get fit_unit (proba_const (3 / 10)) now_ex db_a predictor_loaded 1 =
        Inr (resp, predictor') \<and>
      risco_churn_classificacao resp = Medio) \<and>
   (\<exists>resp predictor'.
      get fit_unit (proba_const (2999 / 10000)) now_ex db_a predictor_loaded 1 =
        Inr (resp, predictor') \<and>
      risco_churn_classificacao resp = Baixo)"
proof -
  have p: "fst (predict_churn_probability fit_unit (proba_const p) predictor_loaded f) = Some p"
    for p f
    by (simp add: predict_loaded)
  show ?thesis
    using C2_tiers [OF g_a ne_a p, of "7 / 10" now_ex]
      C2_tiers [OF g_a ne_a p, of "6999 / 10000" now_ex]
      C2_tiers [OF g_a ne_a p, of "5 / 10" now_ex]
      C2_tiers [OF g_a ne_a p, of "4999 / 10000" now_ex]
      C2_tiers [OF g_a ne_a p, of "3 / 10" now_ex]
      C2_tiers [OF g_a ne_a p, of "2999 / 10000" now_ex]
      g_a ne_a
    by simp
qed

section \<open>The weekly frequency\<close>

text \<open>
  Claim C3. For a history that is not empty the weekly frequency of the feature vector
  is the number of check-ins of the last 30 days divided by 30/7 as soon as one check-in
  is not older than 30 days; otherwise it is the number of all check-ins divided by the
  age in days of the earliest one and multiplied by 7 when that age is positive, and 0
  when it is not.
\<close>

theorem C3_weekly_frequency:
  assumes "cs = query_checkins_desc db i" and "cs \<noteq> []"
  shows "frequencia_semanal (aluno_metrics now aluno cs) =
     (if \<exists>c\<in>set cs. now - 30 * day_us \<le> timestamp_checkin c
      then of_nat (length (filter (\<lambda>c. now - 30 * day_us \<le> timestamp_checkin c) cs))
           / (30 / 7)
      else if 0 < (now - Min (timestamp_checkin ` set cs)) div day_us
           then of_nat (length cs)
                / of_int ((now - Min (timestamp_checkin ` set cs)) div day_us) * 7
           else 0)"
proof -
  have m: "timestamp_checkin (last cs) = Min (timestamp_checkin ` set cs)"
    using assms last_query_Min by simp
  have e: "(0 < length (filter P cs)) = (\<exists>c\<in>set cs. P c)" for P
    by (simp add: filter_empty_conv)
  show ?thesis
    using assms(2)
    by (simp add: aluno_metrics_def frequencia_def Let_def checkins_ultimos_30_dias_def
        timedelta_days_def m e del: length_greater_0_conv length_filter_conv_card)
qed

text \<open>
  Two recent check-ins out of three give 2 / (30/7); six check-ins, the earliest 199
  days old and none recent, give 6 / 199 * 7.
\<close>

theorem C3_weekly_frequency_witness:
  "query_checkins_desc db_a 1 \<noteq> [] \<and>
   frequencia_semanal (aluno_metrics now_ex aluno_ana (query_checkins_desc db_a 1)) = 7 / 15 \<and>
   query_checkins_desc db_b 1 \<noteq> [] \<and>
   frequencia_semanal (aluno_metrics now_ex aluno_ana (query_checkins_desc db_b 1)) = 42 / 199"
  using C3_weekly_frequency [OF refl ne_a, of now_ex aluno_ana]
    C3_weekly_frequency [OF refl ne_b, of now_ex aluno_ana] ne_a ne_b
  by (simp add: q_a q_b mk_checkin_def now_ex_def day_us_def)

section \<open>The reasons\<close>

lemma motivos_contexto_Baixo: "motivos_contexto Baixo dias duracao freq n = []"
  by (simp add: motivos_contexto_def)

lemma distinct_motivos: "distinct (motivos (monta_resposta now aluno cs churn_prob))"
  by (simp add: monta_resposta_def Let_def split: prod.splits)

lemma motivos_Baixo:
  assumes "fst (classifica_prob p) = Baixo"
  shows "set (motivos (monta_resposta now aluno cs (Some p)))
           \<subseteq> {SemCheckins, ProbBaixa (py_round p 2)}"
proof -
  have "classifica_prob p = (Baixo, [ProbBaixa (py_round p 2)])"
    using assms by (simp add: classifica_prob_def split: if_splits)
  then show ?thesis
    by (simp add: monta_resposta_def Let_def classifica_def motivos_contexto_Baixo)
qed

lemma metrics_b:
  "dias_desde_ultimo now_ex (query_checkins_desc db_b 1) = 194"
  "duracao_media (query_checkins_desc db_b 1) = 20"
  "frequencia now_ex (query_checkins_desc db_b 1) = 42 / 199"
  "length (query_checkins_desc db_b 1) = 6"
  by (simp_all add: q_b dias_desde_ultimo_def duracao_media_def total_duracao_def frequencia_def
      checkins_ultimos_30_dias_def timedelta_days_def mk_checkin_def now_ex_def day_us_def)

text \<open>
  Claim C4. The reasons of every answer are pairwise distinct, and when the tier of the
  probability is Low none of the three contextual reasons (last check-in more than 15
  days ago; average duration below 30 with more than 5 check-ins; weekly frequency below
  1 with more than 5 check-ins) is among them, whatever the numbers are.
\<close>

theorem C4_low_tier_no_context:
  assumes "get_or_404 db i = Inr aluno"
  shows "\<exists>resp predictor'.
           get fit proba now db churn_predictor i = Inr (resp, predictor') \<and>
           distinct (motivos resp) \<and>
           (\<forall>p. fst (predict_churn_probability fit proba churn_predictor
                      (aluno_metrics now aluno (query_checkins_desc db i))) = Some p \<and>
                fst (classifica_prob p) = Baixo \<longrightarrow>
                (\<forall>m\<in>set (motivos resp). \<not> contextual m))"
proof -
  let ?cp = "fst (predict_churn_probability fit proba churn_predictor
                      (aluno_metrics now aluno (query_checkins_desc db i)))"
  let ?resp = "monta_resposta now aluno (query_checkins_desc db i) ?cp"
  have g: "get fit proba now db churn_predictor i =
             Inr (?resp, snd (predict_churn_probability fit proba churn_predictor
                      (aluno_metrics now aluno (query_checkins_desc db i))))"
    using assms by (rule get_Inr)
  have d: "distinct (motivos ?resp)"
    by (rule distinct_motivos)
  have c: "\<forall>m\<in>set (motivos ?resp). \<not> contextual m"
    if "?cp = Some p \<and> fst (classifica_prob p) = Baixo" for p
  proof -
    from that have "set (motivos ?resp) \<subseteq> {SemCheckins, ProbBaixa (py_round p 2)}"
      using motivos_Baixo [of p now aluno "query_checkins_desc db i"] by simp
    then show ?thesis by auto
  qed
  from g d c show ?thesis by blast
qed

text \<open>
  Six check-ins of 20 minutes, the last one 194 days ago, at a probability of 0.20: the
  three numeric conditions hold and no contextual reason is given.
\<close>

theorem C4_low_tier_no_context_witness:
  "get_or_404 db_b 1 = Inr aluno_ana \<and>
   15 < dias_desde_ultimo now_ex (query_checkins_desc db_b 1) \<and>
   duracao_media (query_checkins_desc db_b 1) < 30 \<and>
   frequencia now_ex (query_checkins_desc db_b 1) < 1 \<and>
   5 < length (query_checkins_desc db_b 1) \<and>
   fst (classifica_prob (1 / 5)) = Baixo \<and>
   (\<exists>resp predictor'.
      get fit_unit (proba_const (1 / 5)) now_ex db_b predictor_loaded 1 =
        Inr (resp, predictor') \<and>
      distinct (motivos resp) \<and> (\<forall>m\<in>set (motivos resp). \<not> contextual m))"
proof -
  have b: "fst (classifica_prob (1 / 5)) = Baixo"
    by (simp add: classifica_prob_def)
  have p: "fst (predict_churn_probability fit_unit (proba_const (1 / 5)) predictor_loaded
                  (aluno_metrics now_ex aluno_ana (query_checkins_desc db_b 1))) = Some (1 / 5)"
    by (simp add: predict_loaded)
  from C4_low_tier_no_context [OF g_b, of fit_unit "proba_const (1 / 5)" now_ex
      predictor_loaded]
  obtain resp predictor' where
    g: "get fit_unit (proba_const (1 / 5)) now_ex db_b predictor_loaded 1 =
          Inr (resp, predictor')"
    and d: "distinct (motivos resp)"
    and c: "\<forall>p. fst (predict_churn_probability fit_unit (proba_const (1 / 5)) predictor_loaded
                        (aluno_metrics now_ex aluno_ana (query_checkins_desc db_b 1))) = Some p \<and>
                fst (classifica_prob p) = Baixo \<longrightarrow>
                (\<forall>m\<in>set (motivos resp). \<not> contextual m)"
    by blast
  from c p b have "\<forall>m\<in>set (motivos resp). \<not> contextual m"
    by blast
  with g d have "\<exists>resp predictor'.
      get fit_unit (proba_const (1 / 5)) now_ex db_b predictor_loaded 1 =
        Inr (resp, predictor') \<and>
      distinct (motivos resp) \<and> (\<forall>m\<in>set (motivos resp). \<not> contextual m)"
    by blast
  then show ?thesis
    using g_b b by (simp add: metrics_b)
qed

section \<open>The probability of an empty history\<close>






section \<open>The days since the last check-in\<close>

lemma dias_query:
  assumes "cs = query_checkins_desc db i"
  shows "dias_desde_ultimo now cs =
          (if cs = [] then 999 else (now - Max (timestamp_checkin ` set cs)) div day_us)"
proof (cases cs)
  case Nil
  then show ?thesis by (simp add: dias_desde_ultimo_def)
next
  case (Cons c cs')
  then have "timestamp_checkin c = Max (timestamp_checkin ` set cs)"
    using hd_query_Max [of db i] assms by simp
  with Cons show ?thesis by (simp add: dias_desde_ultimo_def timedelta_days_def)
qed

text \<open>
  Claim C6 as the specification states it does not hold. A student whose only check-in
  is 999 days old has 999 days with a history that is not empty, so 999 does not tell
  the empty history apart; and a check-in dated after the clock gives a negative number
  of days, here -1, which is neither at least 0 nor 999.
\<close>

theorem C6_counterexample:
  "query_checkins_desc db_999 1 \<noteq> [] \<and>
   dias_desde_ultimo_checkin (aluno_metrics now_ex aluno_ana (query_checkins_desc db_999 1))
     = 999 \<and>
   query_checkins_desc db_futuro 1 \<noteq> [] \<and>
   dias_desde_ultimo_checkin (aluno_metrics now_ex aluno_ana (query_checkins_desc db_futuro 1))
     = - 1"
  by (simp add: q_999 q_futuro aluno_metrics_def dias_desde_ultimo_def timedelta_days_def
      mk_checkin_def now_ex_def day_us_def)

text \<open>
  Claim C6, amended. The days since the last check-in are 999 when the history is empty
  and otherwise the floor of the whole days from the latest timestamp, read as UTC, to
  the clock; that number is at least 0 (and may be 0) whenever the latest check-in is
  not later than the clock.
\<close>

theorem C6_days_since_last:
  assumes "cs = query_checkins_desc db i"
  shows "dias_desde_ultimo_checkin (aluno_metrics now aluno cs) =
           (if cs = [] then 999 else (now - Max (timestamp_checkin ` set cs)) div day_us) \<and>
         (cs \<noteq> [] \<and> Max (timestamp_checkin ` set cs) \<le> now \<longrightarrow>
            0 \<le> dias_desde_ultimo_checkin (aluno_metrics now aluno cs))"
proof -
  have "0 \<le> (now - t) div day_us" if "t \<le> now" for t
    using that by (simp add: day_us_def pos_imp_zdiv_nonneg_iff)
  then show ?thesis
    using dias_query [OF assms, of now] by (simp add: aluno_metrics_def)
qed

theorem C6_days_since_last_witness:
  "dias_desde_ultimo_checkin (aluno_metrics now_ex aluno_ana (query_checkins_desc db_vazio 1))
     = 999 \<and>
   query_checkins_desc db_a 1 \<noteq> [] \<and>
   Max (timestamp_checkin ` set (query_checkins_desc db_a 1)) \<le> now_ex \<and>
   dias_desde_ultimo_checkin (aluno_metrics now_ex aluno_ana (query_checkins_desc db_a 1)) = 1"
  using C6_days_since_last [OF refl, of now_ex aluno_ana db_vazio 1]
    C6_days_since_last [OF refl, of now_ex aluno_ana db_a 1]
  by (simp add: q_vazio q_a mk_checkin_def now_ex_def day_us_def)

section \<open>The average duration of a visit\<close>
















section \<open>The acknowledgement of a message\<close>

lemma trace_emit [simp]: "trace (emit evs st) = trace st @ evs"
  by (simp add: emit_def)

lemma predictor_emit [simp]:
  "churn_predictor_consumer (emit evs st) = churn_predictor_consumer st"
  by (simp add: emit_def)

lemma appends_quietly_refl: "appends_quietly st st"
  by (simp add: appends_quietly_def)

lemma appends_quietly_trans:
  "appends_quietly s1 s2 \<Longrightarrow> appends_quietly s2 s3 \<Longrightarrow> appends_quietly s1 s3"
  unfolding appends_quietly_def by auto

lemma appends_quietly_emit:
  "\<forall>e\<in>set evs. \<not> is_ack_or_nack e \<Longrightarrow> appends_quietly st (emit evs st)"
  by (auto simp: appends_quietly_def)

text \<open>No handler acknowledges: the channel is only used at the end of the function.\<close>

lemma new_checkin_quiet: "appends_quietly st (snd (handle_new_checkin d st))"
  by (simp add: handle_new_checkin_def Let_def appends_quietly_emit)

lemma bulk_checkin_quiet: "appends_quietly st (snd (handle_bulk_checkin d st))"
  by (auto simp: handle_bulk_checkin_def Let_def appends_quietly_def split: sum.splits)

lemma daily_report_quiet: "appends_quietly st (snd (handle_daily_report env d st))"
  by (auto simp: handle_daily_report_def Let_def appends_quietly_def split: sum.splits)

lemma retrain_quiet: "appends_quietly st (snd (handle_retrain env st))"
  by (auto simp: handle_retrain_def Let_def appends_quietly_def)

lemma unknown_quiet: "appends_quietly st (snd (handle_unknown t d st))"
  by (auto simp: handle_unknown_def appends_quietly_def)

lemma handle_message_quiet: "appends_quietly st (snd (handle_message env body st))"
proof (cases "json_loads env body")
  case (Inl e)
  then show ?thesis by (simp add: handle_message_def appends_quietly_refl)
next
  case (Inr v)
  show ?thesis
  proof (cases "\<exists>d. v = JObj d")
    case True
    then obtain d where v: "v = JObj d" by blast
    let ?st1 = "emit [Print (MensagemRecebida (dict_get d ''type'') (JObj d))] st"
    have a: "appends_quietly st ?st1"
      by (simp add: appends_quietly_emit)
    have b: "appends_quietly ?st1 (snd (handle_message env body st))"
      using Inr v
      by (simp add: handle_message_def Let_def new_checkin_quiet bulk_checkin_quiet
          daily_report_quiet retrain_quiet unknown_quiet)
    from a b show ?thesis by (rule appends_quietly_trans)
  next
    case False
    with Inr have "handle_message env body st = (Some AttributeError, st)"
      by (cases v) (simp_all add: handle_message_def)
    then show ?thesis by (simp add: appends_quietly_refl)
  qed
qed

lemma trace_process:
  "trace (process_checkin_message env tag body st) =
     trace st @ delivered_events env tag body st"
proof -
  obtain evs where "trace (snd (handle_message env body st)) = trace st @ evs"
    using handle_message_quiet [of st env body] by (auto simp: appends_quietly_def)
  then show ?thesis
    by (cases "handle_message env body st")
       (auto simp: delivered_events_def process_checkin_message_def Let_def
          split: option.splits exn.splits)
qed

lemma delivered_events_eq:
  assumes "handle_message env body st = (r, st1)"
  shows "\<exists>evs. (\<forall>e\<in>set evs. \<not> is_ack_or_nack e) \<and>
           delivered_events env tag body st =
             evs @ (case r of
                      None \<Rightarrow> [BasicAck tag, Print (MensagemConfirmada tag)]
                    | Some JSONDecodeError \<Rightarrow>
                        [Print (ErrorFalhaJSON body), SessionRollback, BasicNack tag]
                    | Some e \<Rightarrow> [Print (ErrorAoProcessar e body), SessionRollback, BasicNack tag])
             @ [SessionClose]"
proof -
  obtain evs where e: "trace st1 = trace st @ evs" "\<forall>e\<in>set evs. \<not> is_ack_or_nack e"
    using handle_message_quiet [of st env body] assms by (auto simp: appends_quietly_def)
  show ?thesis
    using e assms
    by (intro exI [of _ evs])
       (auto simp: delivered_events_def process_checkin_message_def Let_def
          split: option.splits exn.splits)
qed

subsection \<open>Evaluations on the example payloads\<close>

lemma h_new:
  "handle_message env_ex body_new st_ex =
     (None, emit [Print (MensagemRecebida (JStr ''new_checkin_event'')
                    (JObj [(''type'', JStr ''new_checkin_event''), (''checkin_id'', JInt 7),
                           (''id_aluno'', JInt 1)])),
                  Print (ProcessandoCheckinIndividual (JInt 7) (JInt 1)), Sleep 1,
                  Print (CheckinIndividualProcessado (JInt 7))] st_ex)"
  by (simp add: handle_message_def env_ex_def loads_ex_def body_new_def body_foo_def quoted_def
      dict_get_def handle_new_checkin_def emit_def Let_def)

lemma h_malformed: "handle_message env_ex body_malformed st_ex = (Some JSONDecodeError, st_ex)"
  by (simp add: handle_message_def env_ex_def loads_ex_def body_new_def body_foo_def
      body_bulk_bad_def body_malformed_def quoted_def)

lemma h_bulk_bad: "fst (handle_message env_ex body_bulk_bad st_ex) = Some TypeError"
  by (simp add: handle_message_def env_ex_def loads_ex_def body_new_def body_foo_def
      body_bulk_bad_def quoted_def dict_get_def dict_get_default_def handle_bulk_checkin_def
      iterate_def Let_def)

lemma l_malformed: "json_loads env_ex body_malformed = Inl JSONDecodeError"
  by (simp add: env_ex_def loads_ex_def body_new_def body_foo_def
      body_bulk_bad_def body_malformed_def quoted_def)


text \<open>
  Claim C8. The processing of a message only appends to the trace. Among the events it
  appends, the acknowledgement of the delivery tag is present exactly when the parse
  and the handler of lines 38 to 106 run to their end without an exception; when they
  raise, and only then, the negative acknowledgement of the tag is present, and the
  acknowledgement is not; and a payload that \<^verbatim>\<open>json.loads\<close> rejects is such a case.
\<close>

theorem C8_ack_iff_completion:
  "trace (process_checkin_message env tag body st) =
     trace st @ delivered_events env tag body st \<and>
   (BasicAck tag \<in> set (delivered_events env tag body st) \<longleftrightarrow>
      fst (handle_message env body st) = None) \<and>
   (BasicNack tag \<in> set (delivered_events env tag body st) \<longleftrightarrow>
      fst (handle_message env body st) \<noteq> None) \<and>
   (fst (handle_message env body st) \<noteq> None \<longrightarrow>
      BasicAck tag \<notin> set (delivered_events env tag body st)) \<and>
   (\<forall>e. json_loads env body = Inl e \<longrightarrow> fst (handle_message env body st) = Some e)"
proof -
  obtain r st1 where h: "handle_message env body st = (r, st1)"
    by (cases "handle_message env body st")
  from delivered_events_eq [OF h, of tag] obtain evs where
    q: "\<forall>e\<in>set evs. \<not> is_ack_or_nack e" and
    d: "delivered_events env tag body st =
             evs @ (case r of
                      None \<Rightarrow> [BasicAck tag, Print (MensagemConfirmada tag)]
                    | Some JSONDecodeError \<Rightarrow>
                        [Print (ErrorFalhaJSON body), SessionRollback, BasicNack tag]
                    | Some e \<Rightarrow> [Print (ErrorAoProcessar e body), SessionRollback, BasicNack tag])
             @ [SessionClose]"
    by blast
  have na: "BasicAck tag \<notin> set evs" and nn: "BasicNack tag \<notin> set evs"
    using q by auto
  have a: "BasicAck tag \<in> set (delivered_events env tag body st) \<longleftrightarrow> r = None"
    unfolding d using na by (auto split: option.splits exn.splits)
  have b: "BasicNack tag \<in> set (delivered_events env tag body st) \<longleftrightarrow> r \<noteq> None"
    unfolding d using nn by (auto split: option.splits exn.splits)
  have c: "\<forall>e. json_loads env body = Inl e \<longrightarrow> fst (handle_message env body st) = Some e"
    by (simp add: handle_message_def)
  show ?thesis
    using a b c h trace_process [of env tag body st] by simp
qed

text \<open>
  A new check-in is acknowledged; a payload that is not JSON and a bulk message whose
  list of identifiers is the number 5 are negatively acknowledged.
\<close>

theorem C8_ack_iff_completion_witness:
  "fst (handle_message env_ex body_new st_ex) = None \<and>
   BasicAck 3 \<in> set (delivered_events env_ex 3 body_new st_ex) \<and>
   json_loads env_ex body_malformed = Inl JSONDecodeError \<and>
   BasicNack 3 \<in> set (delivered_events env_ex 3 body_malformed st_ex) \<and>
   BasicAck 3 \<notin> set (delivered_events env_ex 3 body_malformed st_ex) \<and>
   fst (handle_message env_ex body_bulk_bad st_ex) = Some TypeError \<and>
   BasicNack 3 \<in> set (delivered_events env_ex 3 body_bulk_bad st_ex) \<and>
   BasicAck 3 \<notin> set (delivered_events env_ex 3 body_bulk_bad st_ex)"
  using C8_ack_iff_completion [of env_ex 3 body_new st_ex]
    C8_ack_iff_completion [of env_ex 3 body_malformed st_ex]
    C8_ack_iff_completion [of env_ex 3 body_bulk_bad st_ex]
  by (simp add: h_new h_malformed h_bulk_bad l_malformed)



section \<open>Retraining\<close>




end
